theory Spec2Isabelle
  imports Main
begin

section \<open>Global ban reconciliation (globalban/core.py)\<close>

subsection \<open>Python values: identifiers as integers and as strings\<close>

text \<open>
  The roster \<open>banned\<close> is a JSON dictionary, so its keys are strings: \<open>ban\<close> stores
  \<open>banned[str(user_id)]\<close>. A guild's \<open>banlist\<close> is a JSON list whose items keep their
  Python type: an \<open>int\<close> stays an \<open>int\<close> and a \<open>str\<close> stays a \<open>str\<close>, and Python's
  \<open>in\<close> never finds the integer 42 equal to the string "42".
\<close>

datatype pyval = PInt int | PStr string

definition digit :: "nat \<Rightarrow> char" where
  "digit d = ''0123456789'' ! d"

fun str_of_nat :: "nat \<Rightarrow> string" where
  "str_of_nat n = (if n < 10 then [digit n] else str_of_nat (n div 10) @ [digit (n mod 10)])"

declare str_of_nat.simps [simp del]

text \<open>Python's \<open>str\<close> on an \<open>int\<close>: the decimal numeral, with a minus sign when negative.\<close>

definition str_of_int :: "int \<Rightarrow> string" where
  "str_of_int i = (if i < 0 then CHR ''-'' # str_of_nat (nat (- i)) else str_of_nat (nat i))"

definition digit_of :: "char \<Rightarrow> nat option" where
  "digit_of = map_of (zip ''0123456789'' [0, 1, 2, 3, 4, 5, 6, 7, 8, 9])"

fun nat_of_digits :: "nat \<Rightarrow> string \<Rightarrow> nat option" where
  "nat_of_digits acc [] = Some acc"
| "nat_of_digits acc (c # cs) =
     (case digit_of c of None \<Rightarrow> None | Some d \<Rightarrow> nat_of_digits (10 * acc + d) cs)"

text \<open>
  Python's \<open>int\<close> on a \<open>str\<close>, for the decimal numerals that \<open>str\<close> writes (an optional
  sign, then digits); \<open>None\<close> stands for the \<open>ValueError\<close> Python raises on a string
  that is no numeral. Roster keys are only ever written as \<open>str(user_id)\<close>.
\<close>

definition int_of_str :: "string \<Rightarrow> int option" where
  "int_of_str s =
     (case s of
        [] \<Rightarrow> None
      | c # cs \<Rightarrow>
          if c = CHR ''-'' then (if cs = [] then None else map_option (\<lambda>n. - int n) (nat_of_digits 0 cs))
          else if c = CHR ''+'' then (if cs = [] then None else map_option int (nat_of_digits 0 cs))
          else map_option int (nat_of_digits 0 s))"

subsection \<open>The membership provider (discord) and the configuration store\<close>

datatype exc = AttributeError | Forbidden | NotFound | HTTPException | ValueError

text \<open>
  A guild as the discord library presents it: its name, the ids of the users in its ban
  entries, the ids of its members (the cache \<open>get_member\<close> reads), and what the three
  calls the cog makes raise there: \<open>guild.bans()\<close>, \<open>guild.ban\<close> and \<open>guild.unban\<close>
  on a user id, with \<open>None\<close> for a call that succeeds. What a call raises depends on
  the guild and on the user, not on the moment of the call.
\<close>

record guild =
  name :: string
  bans :: "int list"
  members :: "int list"
  bans_raises :: "exc option"
  ban_raises :: "int \<Rightarrow> exc option"
  unban_raises :: "int \<Rightarrow> exc option"

text \<open>
  The bot's state: the global configuration (\<open>banned\<close>, a dictionary in insertion order,
  and \<open>opted\<close>), the per-guild configuration \<open>banlist\<close> (registered with default \<open>[]\<close>),
  and the guilds the bot knows, which is what \<open>bot.get_guild\<close> reads.
\<close>

record world =
  banned :: "(string \<times> string) list"
  opted :: "int list"
  banlist :: "int \<Rightarrow> pyval list"
  guilds :: "int \<Rightarrow> guild option"

text \<open>What \<open>guild.ban\<close> is given: \<open>discord.Object(id=uid)\<close> or a member.\<close>

datatype snowflake = Object int | Member int

text \<open>
  The calls that leave the cog, in the order they are made: to the provider, to the
  moderation log (\<open>modlog.create_case\<close>: guild, action type, the \<open>user\<close> argument, reason)
  and to the logger.
\<close>

datatype event =
    ListBans int
  | BanCall int snowflake string
  | UnbanCall int int
  | CreateCase int string "int option" string
  | LogException string
  | LogWarning string

text \<open>
  The source reads the ban entries in two ways,
  \<open>[entry async for entry in guild.bans()]\<close> (lines 209 and 277) and
  \<open>await guild.bans()\<close> (line 252); both are the one provider call \<open>guild_bans\<close>, which
  gives the entries or raises. A ban that succeeds adds the user to the ban entries and
  takes them out of the members; an unban that succeeds removes the user's ban entry.
\<close>

definition guild_bans :: "guild \<Rightarrow> exc + int list" where
  "guild_bans G = (case bans_raises G of Some e \<Rightarrow> Inl e | None \<Rightarrow> Inr (bans G))"

definition get_member :: "guild \<Rightarrow> int \<Rightarrow> int option" where
  "get_member G u = (if u \<in> set (members G) then Some u else None)"

definition guild_ban :: "guild \<Rightarrow> int \<Rightarrow> exc + guild" where
  "guild_ban G u =
     (case ban_raises G u of
        Some e \<Rightarrow> Inl e
      | None \<Rightarrow> Inr (G\<lparr>bans := (if u \<in> set (bans G) then bans G else bans G @ [u]),
                        members := removeAll u (members G)\<rparr>))"

definition guild_unban :: "guild \<Rightarrow> int \<Rightarrow> exc + guild" where
  "guild_unban G u =
     (case unban_raises G u of
        Some e \<Rightarrow> Inl e
      | None \<Rightarrow> Inr (G\<lparr>bans := removeAll u (bans G)\<rparr>))"

text \<open>
  A run gives how it ended (\<open>Inl\<close> the exception that left the function), the state it
  left behind, and the calls it made.
\<close>

type_synonym 's run = "(exc + unit) \<times> 's \<times> event list"

definition outcome :: "'s run \<Rightarrow> exc + unit" where
  "outcome r = fst r"

definition final :: "'s run \<Rightarrow> 's" where
  "final r = fst (snd r)"

definition events :: "'s run \<Rightarrow> event list" where
  "events r = snd (snd r)"

definition after :: "event list \<Rightarrow> 's run \<Rightarrow> 's run" where
  "after evs r = (fst r, fst (snd r), evs @ snd (snd r))"

subsection \<open>update_gbs\<close>

text \<open>
  The reason given to \<open>guild.ban\<close> and to \<open>modlog.create_case\<close>:
  \<open>f"Global ban initiated by {ctx.author} with the reason: {reason}"\<close>.
\<close>

definition ban_reason :: "string \<Rightarrow> string \<Rightarrow> string" where
  "ban_reason author reason = ''Global ban initiated by '' @ author @ '' with the reason: '' @ reason"

text \<open>\<open>f"Error with guild with id '{gid}'"\<close>, with the apostrophe as character 39.\<close>

definition guild_error_msg :: "int \<Rightarrow> string" where
  "guild_error_msg gid = ''Error with guild with id '' @ [CHR 0x27] @ str_of_int gid @ [CHR 0x27]"

definition ban_failed_msg :: "string \<Rightarrow> guild \<Rightarrow> string" where
  "ban_failed_msg uid G = ''Failed to ban user with ID '' @ uid @ '' in guild '' @ name G"

text \<open>
  One pass of the inner loop (lines 207 to 247), for the roster item \<open>(uid, reason)\<close> in
  the guild \<open>gid\<close>, on the guild and its \<open>banlist\<close>. \<open>Inr ()\<close> is both \<open>continue\<close> and
  the end of the body; an exception no \<open>except\<close> clause names leaves the function.
  The first \<open>try\<close> reads the bans and, when \<open>int(uid)\<close> is among them, appends \<open>uid\<close>
  (the key, a string) unless \<open>int(uid)\<close> is in the \<open>banlist\<close>. The second bans
  \<open>discord.Object(id=uid)\<close> when \<open>get_member\<close> gave \<open>None\<close>, passing over
  \<open>NotFound\<close>, or else the member, and then calls \<open>create_case\<close> with \<open>user=m\<close>.
\<close>

fun update_gbs_user :: "string \<Rightarrow> int \<Rightarrow> string \<times> string \<Rightarrow> guild \<times> pyval list \<Rightarrow> (guild \<times> pyval list) run" where
  "update_gbs_user author gid (uid, reason) (G, bl) =
     (case guild_bans G of
        Inl e \<Rightarrow>
          if e = AttributeError \<or> e = Forbidden
          then (Inr (), (G, bl), [ListBans gid, LogException (guild_error_msg gid)])
          else (Inl e, (G, bl), [ListBans gid])
      | Inr ids \<Rightarrow>
          (case int_of_str uid of
             None \<Rightarrow> (Inl ValueError, (G, bl), [ListBans gid])
           | Some n \<Rightarrow>
               if n \<in> set ids
               then (Inr (), (G, if PInt n \<in> set bl then bl else bl @ [PStr uid]), [ListBans gid])
               else
                 (case get_member G n of
                    None \<Rightarrow>
                      (case guild_ban G n of
                         Inl e \<Rightarrow>
                           if e = NotFound
                           then (Inr (), (G, bl),
                                 [ListBans gid, BanCall gid (Object n) (ban_reason author reason),
                                  CreateCase gid ''globalban'' None (ban_reason author reason)])
                           else if e = Forbidden
                           then (Inr (), (G, bl),
                                 [ListBans gid, BanCall gid (Object n) (ban_reason author reason),
                                  LogWarning (ban_failed_msg uid G)])
                           else (Inl e, (G, bl),
                                 [ListBans gid, BanCall gid (Object n) (ban_reason author reason)])
                       | Inr G' \<Rightarrow>
                           (Inr (), (G', bl),
                            [ListBans gid, BanCall gid (Object n) (ban_reason author reason),
                             CreateCase gid ''globalban'' None (ban_reason author reason)]))
                  | Some m \<Rightarrow>
                      (case guild_ban G n of
                         Inl e \<Rightarrow>
                           if e = Forbidden
                           then (Inr (), (G, bl),
                                 [ListBans gid, BanCall gid (Member m) (ban_reason author reason),
                                  LogWarning (ban_failed_msg uid G)])
                           else (Inl e, (G, bl),
                                 [ListBans gid, BanCall gid (Member m) (ban_reason author reason)])
                       | Inr G' \<Rightarrow>
                           (Inr (), (G', bl),
                            [ListBans gid, BanCall gid (Member m) (ban_reason author reason),
                             CreateCase gid ''globalban'' (Some m) (ban_reason author reason)])))))"

declare update_gbs_user.simps [simp del]

text \<open>The inner loop, \<open>for uid, reason in (await self.config.banned()).items()\<close>.\<close>

fun update_gbs_users :: "string \<Rightarrow> int \<Rightarrow> (string \<times> string) list \<Rightarrow> guild \<times> pyval list \<Rightarrow> (guild \<times> pyval list) run" where
  "update_gbs_users author gid [] s = (Inr (), s, [])"
| "update_gbs_users author gid (kv # rest) s =
     (let r = update_gbs_user author gid kv s in
      case outcome r of
        Inl e \<Rightarrow> r
      | Inr _ \<Rightarrow> after (events r) (update_gbs_users author gid rest (final r)))"

text \<open>
  The outer loop, \<open>for gid in await self.config.opted()\<close>: a guild that \<open>get_guild\<close>
  does not know is passed over; the inner loop works on the guild object and on the
  \<open>banlist\<close> stored under the guild's id.
\<close>

definition put_guild :: "int \<Rightarrow> guild \<times> pyval list \<Rightarrow> world \<Rightarrow> world" where
  "put_guild gid s w = w\<lparr>banlist := (banlist w)(gid := snd s), guilds := (guilds w)(gid \<mapsto> fst s)\<rparr>"

fun update_gbs_guilds :: "string \<Rightarrow> int list \<Rightarrow> world \<Rightarrow> world run" where
  "update_gbs_guilds author [] w = (Inr (), w, [])"
| "update_gbs_guilds author (gid # rest) w =
     (case guilds w gid of
        None \<Rightarrow> update_gbs_guilds author rest w
      | Some G \<Rightarrow>
          (let r = update_gbs_users author gid (banned w) (G, banlist w gid) in
           case outcome r of
             Inl e \<Rightarrow> (Inl e, put_guild gid (final r) w, events r)
           | Inr _ \<Rightarrow> after (events r) (update_gbs_guilds author rest (put_guild gid (final r) w))))"

definition update_gbs :: "string \<Rightarrow> world \<Rightarrow> world run" where
  "update_gbs author w = update_gbs_guilds author (opted w) w"

subsection \<open>remove_gbs_guild\<close>

text \<open>
  The loop over the ban entries read at its start (lines 252 to 264): an entry whose
  \<open>str(user.id)\<close> is no key of the roster, or whose \<open>user.id\<close> is in the \<open>banlist\<close>, is
  passed over; \<open>Forbidden\<close> from \<open>unban\<close> is passed over too.
\<close>

fun remove_gbs_guild_bans :: "int \<Rightarrow> (string \<times> string) list \<Rightarrow> pyval list \<Rightarrow> int list \<Rightarrow> guild \<Rightarrow> guild run" where
  "remove_gbs_guild_bans gid roster bl [] G = (Inr (), G, [])"
| "remove_gbs_guild_bans gid roster bl (u # rest) G =
     (if str_of_int u \<notin> fst ` set roster \<or> PInt u \<in> set bl
      then remove_gbs_guild_bans gid roster bl rest G
      else
        (case guild_unban G u of
           Inl e \<Rightarrow>
             if e = Forbidden
             then after [UnbanCall gid u] (remove_gbs_guild_bans gid roster bl rest G)
             else (Inl e, G, [UnbanCall gid u])
         | Inr G' \<Rightarrow> after [UnbanCall gid u] (remove_gbs_guild_bans gid roster bl rest G')))"

text \<open>
  \<open>guild = self.bot.get_guild(int(gid))\<close> is used as it comes: on \<open>None\<close> the call
  \<open>guild.bans()\<close> raises \<open>AttributeError\<close>, and nothing here catches what
  \<open>guild.bans()\<close> raises.
\<close>

definition remove_gbs_guild :: "int \<Rightarrow> world \<Rightarrow> world run" where
  "remove_gbs_guild gid w =
     (case guilds w gid of
        None \<Rightarrow> (Inl AttributeError, w, [])
      | Some G \<Rightarrow>
          (case guild_bans G of
             Inl e \<Rightarrow> (Inl e, w, [ListBans gid])
           | Inr ids \<Rightarrow>
               (let r = remove_gbs_guild_bans gid (banned w) (banlist w gid) ids G in
                (outcome r, w\<lparr>guilds := (guilds w)(gid \<mapsto> final r)\<rparr>, ListBans gid # events r))))"

subsection \<open>remove_gbs_user\<close>

text \<open>
  The loop over the opted guilds (lines 267 to 287): unknown guilds and guilds whose
  \<open>banlist\<close> has \<open>uid\<close> are passed over; \<open>AttributeError\<close> and \<open>Forbidden\<close> from reading
  the bans are logged and the guild is passed over; the first ban entry with the user's id
  is unbanned, \<open>Forbidden\<close> passed over.
\<close>

fun remove_gbs_user_guilds :: "int \<Rightarrow> int list \<Rightarrow> world \<Rightarrow> world run" where
  "remove_gbs_user_guilds uid [] w = (Inr (), w, [])"
| "remove_gbs_user_guilds uid (gid # rest) w =
     (case guilds w gid of
        None \<Rightarrow> remove_gbs_user_guilds uid rest w
      | Some G \<Rightarrow>
          if PInt uid \<in> set (banlist w gid) then remove_gbs_user_guilds uid rest w
          else
            (case guild_bans G of
               Inl e \<Rightarrow>
                 if e = AttributeError \<or> e = Forbidden
                 then after [ListBans gid, LogException (guild_error_msg gid)]
                        (remove_gbs_user_guilds uid rest w)
                 else (Inl e, w, [ListBans gid])
             | Inr ids \<Rightarrow>
                 if uid \<in> set ids
                 then
                   (case guild_unban G uid of
                      Inl e \<Rightarrow>
                        if e = Forbidden
                        then after [ListBans gid, UnbanCall gid uid] (remove_gbs_user_guilds uid rest w)
                        else (Inl e, w, [ListBans gid, UnbanCall gid uid])
                    | Inr G' \<Rightarrow>
                        after [ListBans gid, UnbanCall gid uid]
                          (remove_gbs_user_guilds uid rest (w\<lparr>guilds := (guilds w)(gid \<mapsto> G')\<rparr>)))
                 else after [ListBans gid] (remove_gbs_user_guilds uid rest w)))"

definition remove_gbs_user :: "int \<Rightarrow> world \<Rightarrow> world run" where
  "remove_gbs_user uid w = remove_gbs_user_guilds uid (opted w) w"

subsection \<open>Reading a run\<close>

text \<open>The guilds whose bans were read, in order, and the calls of \<open>guild.ban\<close>.\<close>

fun listed :: "event \<Rightarrow> int list" where
  "listed (ListBans g) = [g]"
| "listed _ = []"

definition visits :: "event list \<Rightarrow> int list" where
  "visits evs = concat (map listed evs)"

fun is_ban :: "event \<Rightarrow> bool" where
  "is_ban (BanCall g t r) = True"
| "is_ban _ = False"

definition ban_calls :: "event list \<Rightarrow> event list" where
  "ban_calls evs = filter is_ban evs"

subsection \<open>Relations between guild states\<close>

text \<open>
  \<open>grows G G'\<close>: the provider answers as before and no ban entry was lost.
  \<open>settled roster G\<close>: a pass of \<open>update_gbs\<close> over \<open>roster\<close> has nothing to ban in
  \<open>G\<close>, because reading the bans fails and is logged, or every key is banned already.
\<close>

definition grows :: "guild \<Rightarrow> guild \<Rightarrow> bool" where
  "grows G G' \<longleftrightarrow> bans_raises G' = bans_raises G \<and> ban_raises G' = ban_raises G \<and>
     set (bans G) \<subseteq> set (bans G')"


subsection \<open>Scenarios\<close>

text \<open>
  A guild on which every provider call succeeds, and a state whose only known guild has
  id 1. The scenarios below have user 42 on the roster with the reason "spam".
\<close>

definition plain_guild :: "string \<Rightarrow> int list \<Rightarrow> int list \<Rightarrow> guild" where
  "plain_guild nm bs ms =
     \<lparr>name = nm, bans = bs, members = ms, bans_raises = None,
      ban_raises = (\<lambda>_. None), unban_raises = (\<lambda>_. None)\<rparr>"

definition world_of :: "(string \<times> string) list \<Rightarrow> int list \<Rightarrow> pyval list \<Rightarrow> guild \<Rightarrow> world" where
  "world_of roster os bl G =
     \<lparr>banned = roster, opted = os, banlist = (\<lambda>_. [])(1 := bl), guilds = (\<lambda>_. None)(1 \<mapsto> G)\<rparr>"

text \<open>G1 is opted in, has no ban on 42, and 42 is not among its members.\<close>

definition fresh :: world where
  "fresh = world_of [(''42'', ''spam'')] [1] [] (plain_guild ''G1'' [] [])"

text \<open>The same, with 42 a member of G1.\<close>

definition member_unbanned :: world where
  "member_unbanned = world_of [(''42'', ''spam'')] [1] [] (plain_guild ''G1'' [] [42])"

text \<open>G1 is opted in and has 42 banned already; its \<open>banlist\<close> is empty.\<close>

definition banned_locally :: world where
  "banned_locally = world_of [(''42'', ''spam'')] [1] [] (plain_guild ''G1'' [42] [])"








section \<open>Properties of the loops\<close>

subsection \<open>Numerals\<close>

text \<open>
  \<open>int(str(i)) == i\<close>: a roster key written by \<open>ban\<close> as \<open>str(user_id)\<close> is read
  back by \<open>int(uid)\<close> without a \<open>ValueError\<close>.
\<close>

lemma digit_of_digit: "d < 10 \<Longrightarrow> digit_of (digit d) = Some d"
proof -
  assume "d < 10"
  then have "d = 0 \<or> d = 1 \<or> d = 2 \<or> d = 3 \<or> d = 4 \<or> d = 5 \<or> d = 6 \<or> d = 7 \<or> d = 8 \<or> d = 9"
    by arith
  then show ?thesis
    by (elim disjE) (simp_all add: digit_def digit_of_def)
qed

lemma digit_not_sign: "d < 10 \<Longrightarrow> digit d \<noteq> CHR ''-'' \<and> digit d \<noteq> CHR ''+''"
proof -
  assume "d < 10"
  then have "d = 0 \<or> d = 1 \<or> d = 2 \<or> d = 3 \<or> d = 4 \<or> d = 5 \<or> d = 6 \<or> d = 7 \<or> d = 8 \<or> d = 9"
    by arith
  then show ?thesis
    by (elim disjE) (simp_all add: digit_def)
qed

lemma nat_of_digits_append:
  "nat_of_digits acc (xs @ ys) =
     (case nat_of_digits acc xs of None \<Rightarrow> None | Some a \<Rightarrow> nat_of_digits a ys)"
  by (induction xs arbitrary: acc) (auto split: option.splits)

lemma nat_of_digits_str_of_nat: "nat_of_digits 0 (str_of_nat n) = Some n"
proof (induction n rule: str_of_nat.induct)
  case (1 n)
  show ?case
  proof (cases "n < 10")
    case True
    then show ?thesis
      by (subst str_of_nat.simps) (simp add: digit_of_digit)
  next
    case False
    have "nat_of_digits 0 (str_of_nat (n div 10)) = Some (n div 10)"
      using 1 False by simp
    then show ?thesis
      using False
      by (subst str_of_nat.simps) (simp add: nat_of_digits_append digit_of_digit)
  qed
qed

lemma str_of_nat_head: "\<exists>d cs. d < 10 \<and> str_of_nat n = digit d # cs"
proof (induction n rule: str_of_nat.induct)
  case (1 n)
  show ?case
  proof (cases "n < 10")
    case True
    then show ?thesis by (subst str_of_nat.simps) auto
  next
    case False
    then obtain d cs where "d < 10" "str_of_nat (n div 10) = digit d # cs"
      using 1 by blast
    then show ?thesis using False by (subst str_of_nat.simps) auto
  qed
qed

lemma int_of_str_str_of_int: "int_of_str (str_of_int i) = Some i"
proof (cases "i < 0")
  case True
  obtain d cs where "d < 10" "str_of_nat (nat (- i)) = digit d # cs"
    using str_of_nat_head by blast
  then show ?thesis
    using True nat_of_digits_str_of_nat [of "nat (- i)"]
    by (simp add: int_of_str_def str_of_int_def)
next
  case False
  obtain d cs where d: "d < 10" "str_of_nat (nat i) = digit d # cs"
    using str_of_nat_head by blast
  then show ?thesis
    using False nat_of_digits_str_of_nat [of "nat i"] digit_not_sign [of d]
    by (simp add: int_of_str_def str_of_int_def)
qed

subsection \<open>Runs\<close>

lemma outcome_after [simp]: "outcome (after evs r) = outcome r"
  by (simp add: outcome_def after_def)

lemma final_after [simp]: "final (after evs r) = final r"
  by (simp add: final_def after_def)

lemma events_after [simp]: "events (after evs r) = evs @ events r"
  by (simp add: events_def after_def)

lemma run_sel [simp]:
  "outcome (r, s, evs) = r" "final (r, s, evs) = s" "events (r, s, evs) = evs"
  by (simp_all add: outcome_def final_def events_def)

lemma visits_simps [simp]:
  "visits [] = []" "visits (ListBans g # evs) = g # visits evs"
  "visits (BanCall g t r # evs) = visits evs" "visits (UnbanCall g u # evs) = visits evs"
  "visits (CreateCase g a m r # evs) = visits evs" "visits (LogException s # evs) = visits evs"
  "visits (LogWarning s # evs) = visits evs" "visits (xs @ ys) = visits xs @ visits ys"
  by (simp_all add: visits_def)




lemma ban_calls_append [simp]: "ban_calls (xs @ ys) = ban_calls xs @ ban_calls ys"
  by (simp add: ban_calls_def)

subsection \<open>The provider's calls\<close>



subsection \<open>remove_gbs_user and remove_gbs_guild\<close>

lemma remove_gbs_user_guilds_config:
  "banned (final (remove_gbs_user_guilds u gs w)) = banned w \<and>
   opted (final (remove_gbs_user_guilds u gs w)) = opted w \<and>
   banlist (final (remove_gbs_user_guilds u gs w)) = banlist w"
  by (induction gs arbitrary: w) (auto split: option.splits sum.splits)

lemma remove_gbs_guild_config:
  "banned (final (remove_gbs_guild g w)) = banned w \<and>
   opted (final (remove_gbs_guild g w)) = opted w \<and>
   banlist (final (remove_gbs_guild g w)) = banlist w"
  by (auto simp: remove_gbs_guild_def Let_def split: option.splits sum.splits)







subsection \<open>update_gbs: what a pass changes\<close>



lemma grows_refl [simp]: "grows G G"
  by (simp add: grows_def)





subsection \<open>update_gbs: failures that are caught\<close>




subsection \<open>update_gbs: a second pass\<close>







section \<open>The claims\<close>

subsection \<open>C1: the allow-list protects against unbans\<close>



subsection \<open>C2: a second pass of update_gbs\<close>




subsection \<open>C3: a failure reading the bans\<close>




subsection \<open>C4: remove_gbs_guild on an unknown guild\<close>

text \<open>
  C4. \<open>remove_gbs_guild\<close> has no \<open>if guild is None\<close> test: for a guild id that
  \<open>get_guild\<close> does not know, \<open>guild.bans()\<close> raises \<open>AttributeError\<close> and the
  exception leaves the function before any call is made. \<open>remove_gbs_user\<close> and
  \<open>update_gbs\<close> pass over the same unknown guild and return.
\<close>

theorem remove_gbs_guild_unknown_guild:
  "guilds fresh 7 = None \<and>
   outcome (remove_gbs_guild 7 fresh) = Inl AttributeError \<and>
   events (remove_gbs_guild 7 fresh) = [] \<and>
   outcome (remove_gbs_user 42 (fresh\<lparr>opted := [7]\<rparr>)) = Inr () \<and>
   outcome (update_gbs ''Alice'' (fresh\<lparr>opted := [7]\<rparr>)) = Inr ()"
  by code_simp

subsection \<open>C5: the ban and its case in the moderation log\<close>

text \<open>
  C5. Roster \<open>{42: "spam"}\<close>, G1 opted in, no ban on 42, started by Alice: one call of
  \<open>guild.ban\<close> for 42 with the reason "Global ban initiated by Alice with the reason:
  spam", and one call of \<open>create_case\<close> with the action type "globalban", the guild and
  that reason. When 42 is not a member of G1 the \<open>user\<close> of that case is \<open>None\<close>
  (\<open>user=m\<close>, line 242), not the banned user. The time stamp \<open>created_at\<close> is the
  clock's and is not part of the event.
\<close>

theorem create_case_without_user:
  "events (update_gbs ''Alice'' fresh) =
     [ListBans 1,
      BanCall 1 (Object 42) ''Global ban initiated by Alice with the reason: spam'',
      CreateCase 1 ''globalban'' None ''Global ban initiated by Alice with the reason: spam'']"
  by code_simp

text \<open>
  When 42 is a member of G1, the member is banned and is the \<open>user\<close> of the case.
\<close>

lemma create_case_for_member:
  "events (update_gbs ''Alice'' member_unbanned) =
     [ListBans 1,
      BanCall 1 (Member 42) ''Global ban initiated by Alice with the reason: spam'',
      CreateCase 1 ''globalban'' (Some 42) ''Global ban initiated by Alice with the reason: spam'']"
  by code_simp

subsection \<open>C6: a user who is banned already\<close>

text \<open>
  C6. Roster \<open>{42: "spam"}\<close>, G1 opted in, 42 banned in G1: \<open>update_gbs\<close> makes no ban
  call, and line 213 appends the roster key, the string "42", to the \<open>banlist\<close> of G1.
  The integer 42 is not in the list afterwards, so \<open>remove_gbs_user 42\<close> does not find
  42 protected and unbans them.
\<close>

theorem already_banned_appends_key:
  "banlist (final (update_gbs ''Alice'' banned_locally)) 1 = [PStr ''42''] \<and>
   PInt 42 \<notin> set (banlist (final (update_gbs ''Alice'' banned_locally)) 1) \<and>
   ban_calls (events (update_gbs ''Alice'' banned_locally)) = [] \<and>
   events (remove_gbs_user 42 (final (update_gbs ''Alice'' banned_locally))) =
     [ListBans 1, UnbanCall 1 42]"
  by code_simp

subsection \<open>C7: remove_gbs_guild lifts roster bans only\<close>



subsection \<open>C8: repeated entries in the banlist\<close>

text \<open>
  Line 212 looks for \<open>int(uid)\<close> in the list and line 213 appends \<open>uid\<close>, the string:
  a pass over a user who is banned, and whose id is not in the list as an integer, appends
  the key and leaves the test of line 212 as it was.
\<close>

lemma update_gbs_user_appends_key:
  "guild_bans G = Inr ids \<Longrightarrow> int_of_str uid = Some n \<Longrightarrow> n \<in> set ids \<Longrightarrow>
   PInt n \<notin> set bl \<Longrightarrow>
   update_gbs_user a g (uid, reason) (G, bl) = (Inr (), (G, bl @ [PStr uid]), [ListBans g]) \<and>
   PInt n \<notin> set (bl @ [PStr uid])"
  by (simp add: update_gbs_user.simps)

text \<open>
  C8. The \<open>banlist\<close> does not stay free of repetitions across passes of \<open>update_gbs\<close>:
  the test of line 212 never finds what earlier passes appended. From \<open>fresh\<close>, the
  first pass bans 42 in G1, the second appends "42", and the third appends "42" once
  more.
\<close>

theorem banlist_gets_duplicates:
  "banlist (final (update_gbs ''Alice'' fresh)) 1 = [] \<and>
   banlist (final (update_gbs ''Alice'' (final (update_gbs ''Alice'' fresh)))) 1 = [PStr ''42''] \<and>
   banlist (final (update_gbs ''Alice'' (final (update_gbs ''Alice'' (final (update_gbs ''Alice'' fresh)))))) 1 =
     [PStr ''42'', PStr ''42''] \<and>
   \<not> distinct (banlist (final (update_gbs ''Alice'' (final (update_gbs ''Alice'' (final (update_gbs ''Alice'' fresh)))))) 1)"
  by code_simp

subsection \<open>C9: a ban that is forbidden\<close>



subsection \<open>C10: the remove operations leave the configuration alone\<close>

text \<open>
  C10. \<open>remove_gbs_user\<close> and \<open>remove_gbs_guild\<close> change neither the roster, nor the
  opted list, nor any guild's \<open>banlist\<close>, however they end.
\<close>

theorem remove_ops_keep_config:
  "banned (final (remove_gbs_user u w)) = banned w \<and>
   opted (final (remove_gbs_user u w)) = opted w \<and>
   banlist (final (remove_gbs_user u w)) = banlist w \<and>
   banned (final (remove_gbs_guild g w)) = banned w \<and>
   opted (final (remove_gbs_guild g w)) = opted w \<and>
   banlist (final (remove_gbs_guild g w)) = banlist w"
  using remove_gbs_user_guilds_config [of u "opted w" w] remove_gbs_guild_config [of g w]
  by (simp add: remove_gbs_user_def)

end
